theory Spec2Isabelle
  imports Main "HOL-Library.AList"
begin

section \<open>JavaScript values shared by the services\<close>

text \<open>
  A thrown JavaScript \<open>Error\<close> is the value \<open>Error msg\<close>, with the message the source
  gives it. A function that can throw returns \<open>js_error + 'a\<close>, \<open>Inl\<close> being the throw.
\<close>

datatype js_error = Error string

text \<open>
  Strings are lists of 8-bit characters, read as the code points U+0000 to U+00FF.
  \<open>String.prototype.toLowerCase\<close> on that range maps A-Z and the Latin-1 capitals
  U+00C0 to U+00DE (the multiplication sign U+00D7 apart) to the letter 32 places up,
  which sets bit 5 of the code, clear in all of them, and leaves every other character
  alone.
\<close>

definition lower_char :: "char \<Rightarrow> char" where
  "lower_char c =
     (let n = (of_char c :: nat)
      in if (65 \<le> n \<and> n \<le> 90) \<or> (192 \<le> n \<and> n \<le> 222 \<and> n \<noteq> 215)
         then Char (digit0 c) (digit1 c) (digit2 c) (digit3 c) (digit4 c) True
                (digit6 c) (digit7 c)
         else c)"

definition toLowerCase :: "string \<Rightarrow> string" where
  "toLowerCase s = map lower_char s"

section \<open>services/ocr.js: compareDocumentByType\<close>

text \<open>
  A sanitized field map is a plain JavaScript object (its prototype is
  \<open>Object.prototype\<close>) from field names to normalized strings, kept as the list of its
  own properties; a property may hold \<open>undefined\<close> (\<open>None\<close>) in place of a string.
  \<open>Object_keys\<close> lists every own key once (nothing below depends on the order of the
  list).
\<close>

type_synonym fields = "(string \<times> string option) list"

definition Object_keys :: "fields \<Rightarrow> string list" where
  "Object_keys obj = remdups (map fst obj)"

text \<open>
  The read \<open>obj[f]\<close> goes through the prototype chain. It gives the own property \<open>f\<close>
  when the object has one. When it has none, it gives the member of \<open>Object.prototype\<close>
  of that name if there is one (a built-in function, or for \<open>__proto__\<close> the prototype
  object itself), and \<open>undefined\<close> otherwise. \<open>js_field\<close> is what such a read can give.
\<close>

datatype js_field = Undefined | Text string | Inherited string

definition object_prototype_names :: "string list" where
  "object_prototype_names =
     [''constructor'', ''__defineGetter__'', ''__defineSetter__'', ''hasOwnProperty'',
      ''__lookupGetter__'', ''__lookupSetter__'', ''isPrototypeOf'', ''propertyIsEnumerable'',
      ''toString'', ''valueOf'', ''__proto__'', ''toLocaleString'']"

definition field_of :: "fields \<Rightarrow> string \<Rightarrow> js_field" where
  "field_of obj f =
     (case map_of obj f of
        Some (Some s) \<Rightarrow> Text s
      | Some None \<Rightarrow> Undefined
      | None \<Rightarrow> if f \<in> set object_prototype_names then Inherited f else Undefined)"

text \<open>
  How a template literal prints a value: \<open>undefined\<close> prints as its name, a string as
  itself, the prototype object as \<open>[object Object]\<close>, and a built-in function as Node
  prints it, under its own name, which for \<open>constructor\<close> is \<open>Object\<close>.
\<close>

definition template :: "js_field \<Rightarrow> string" where
  "template v =
     (case v of
        Undefined \<Rightarrow> ''undefined''
      | Text s \<Rightarrow> s
      | Inherited n \<Rightarrow>
          if n = ''__proto__'' then ''[object Object]''
          else ''function '' @ (if n = ''constructor'' then ''Object'' else n)
               @ ''() { [native code] }'')"

text \<open>
  The ten sanitizers live in \<open>utils/setDoc\<close>, outside the sources verified here, so
  they are parameters of the model. Nothing is known of them: each takes its input, may
  throw, and may have effects, which are threaded through as a state \<open>'s\<close>.
\<close>

type_synonym ('i, 's) sanitizer = "'i \<Rightarrow> 's \<Rightarrow> (js_error + fields) \<times> 's"

record ('o, 'k, 's) sanitizers =
  sanitizeAadharData :: "('o, 's) sanitizer"
  sanitizeModKycDataAadhar :: "('k, 's) sanitizer"
  sanitizePassportData :: "('o, 's) sanitizer"
  sanitizeModKycDataPassport :: "('k, 's) sanitizer"
  sanitizePanCardData :: "('o, 's) sanitizer"
  sanitizeModKycDataPanCard :: "('k, 's) sanitizer"
  sanitizeDrivingLicenseData :: "('o, 's) sanitizer"
  sanitizeModKycDataDrivingLicense :: "('k, 's) sanitizer"
  sanitizeVoterIdData :: "('o, 's) sanitizer"
  sanitizeModKycDataVoterId :: "('k, 's) sanitizer"

text \<open>
  \<open>compareStrings\<close> (\<open>utils/stringComparison\<close>) is a parameter as well: a function of
  the two looked-up values whose result the source reads as a truth value.
\<close>

type_synonym comparator = "js_field \<Rightarrow> js_field \<Rightarrow> bool"

record comparison =
  c_field :: string
  c_isMatch :: bool
  c_ocrValue :: js_field
  c_kycValue :: js_field

record mismatch =
  ocrValue :: js_field
  kycValue :: js_field
  reason :: string

text \<open>
  \<open>mismatchResults\<close> starts as the empty object \<open>{}\<close>. The assignment
  \<open>mismatchResults[field] = entry\<close> adds or replaces the own property \<open>field\<close>, for every
  name but one: for \<open>__proto__\<close> it runs the setter of \<open>Object.prototype\<close>, which makes
  the entry the prototype of \<open>mismatchResults\<close> and adds no own property. So the object
  is its own entries together with the entry that has replaced its prototype, if any.
\<close>

record mismatch_object =
  own_entries :: "(string \<times> mismatch) list"
  replaced_prototype :: "mismatch option"

record compare_result =
  isMatch :: bool
  mismatchResults :: mismatch_object

text \<open>The \<open>switch\<close> on the lower-cased document type: the sanitizer pair of each case.\<close>

definition select_sanitizers ::
  "('o, 'k, 's) sanitizers \<Rightarrow> string \<Rightarrow> (('o, 's) sanitizer \<times> ('k, 's) sanitizer) option" where
  "select_sanitizers S t =
     (if t = ''aadhaar-card'' then Some (sanitizeAadharData S, sanitizeModKycDataAadhar S)
      else if t = ''passport'' then Some (sanitizePassportData S, sanitizeModKycDataPassport S)
      else if t = ''pan-card'' then Some (sanitizePanCardData S, sanitizeModKycDataPanCard S)
      else if t = ''dl''
        then Some (sanitizeDrivingLicenseData S, sanitizeModKycDataDrivingLicense S)
      else if t = ''voter-id'' then Some (sanitizeVoterIdData S, sanitizeModKycDataVoterId S)
      else None)"

text \<open>\<open>Object.keys(sanitizedOcrData).map(...)\<close>: one comparison per key of the OCR side.\<close>

definition comparisonResults :: "comparator \<Rightarrow> fields \<Rightarrow> fields \<Rightarrow> comparison list" where
  "comparisonResults compareStrings sanitizedOcrData sanitizedKycData =
     map (\<lambda>f. \<lparr>c_field = f,
               c_isMatch =
                 compareStrings (field_of sanitizedOcrData f) (field_of sanitizedKycData f),
               c_ocrValue = field_of sanitizedOcrData f,
               c_kycValue = field_of sanitizedKycData f\<rparr>)
         (Object_keys sanitizedOcrData)"

text \<open>The body of the \<open>forEach\<close>: a failed comparison is assigned under its field name.\<close>

definition record_mismatch :: "comparison \<Rightarrow> mismatch_object \<Rightarrow> mismatch_object" where
  "record_mismatch c acc =
     (if \<not> c_isMatch c
      then
        let entry =
          \<lparr>ocrValue = c_ocrValue c, kycValue = c_kycValue c,
           reason = ''Mismatch: OCR value ('' @ template (c_ocrValue c)
                    @ '') does not match KYC value ('' @ template (c_kycValue c) @ '')''\<rparr>
        in if c_field c = ''__proto__''
           then acc\<lparr>replaced_prototype := Some entry\<rparr>
           else acc\<lparr>own_entries := AList.update (c_field c) entry (own_entries acc)\<rparr>
      else acc)"

definition compare_fields :: "comparator \<Rightarrow> fields \<Rightarrow> fields \<Rightarrow> compare_result" where
  "compare_fields compareStrings sanitizedOcrData sanitizedKycData =
     (let results = comparisonResults compareStrings sanitizedOcrData sanitizedKycData
      in \<lparr>isMatch = list_all c_isMatch results,
          mismatchResults =
            fold record_mismatch results \<lparr>own_entries = [], replaced_prototype = None\<rparr>\<rparr>)"

definition compareDocumentByType ::
  "('o, 'k, 's) sanitizers \<Rightarrow> comparator \<Rightarrow> string \<Rightarrow> 'o \<Rightarrow> 'k \<Rightarrow> 's
     \<Rightarrow> (js_error + compare_result) \<times> 's" where
  "compareDocumentByType S compareStrings documentType ocrData kycData s =
     (case select_sanitizers S (toLowerCase documentType) of
        None \<Rightarrow> (Inl (Error (''Unsupported document type: '' @ documentType)), s)
      | Some (sanitizeOcr, sanitizeKyc) \<Rightarrow>
          (case sanitizeOcr ocrData s of
             (Inl e, s1) \<Rightarrow> (Inl e, s1)
           | (Inr sanitizedOcrData, s1) \<Rightarrow>
               (case sanitizeKyc kycData s1 of
                  (Inl e, s2) \<Rightarrow> (Inl e, s2)
                | (Inr sanitizedKycData, s2) \<Rightarrow>
                    (Inr (compare_fields compareStrings sanitizedOcrData sanitizedKycData),
                     s2))))"

text \<open>
  The case labels of the \<open>switch\<close>, and the \<open>idType\<close> rule of \<open>kycSchema\<close>
  (\<open>validations/kyc\<close>): Joi's \<open>valid(...)\<close> admits exactly the listed strings.
\<close>

definition registered :: "string list" where
  "registered = [''aadhaar-card'', ''passport'', ''pan-card'', ''dl'', ''voter-id'']"


subsection \<open>Sample sanitizers and comparator\<close>

text \<open>
  Concrete parameters on which the theorems below are run. A counting sanitizer returns
  its input and counts its invocations in the state; a logging sanitizer returns its input
  and appends its own name to the state, so the state tells which sanitizers ran, in
  order. The sample comparator is plain equality.
\<close>

definition counting_sanitizer :: "(fields, nat) sanitizer" where
  "counting_sanitizer x n = (Inr x, Suc n)"

definition counting_sanitizers :: "(fields, fields, nat) sanitizers" where
  "counting_sanitizers =
     \<lparr>sanitizeAadharData = counting_sanitizer, sanitizeModKycDataAadhar = counting_sanitizer,
      sanitizePassportData = counting_sanitizer, sanitizeModKycDataPassport = counting_sanitizer,
      sanitizePanCardData = counting_sanitizer, sanitizeModKycDataPanCard = counting_sanitizer,
      sanitizeDrivingLicenseData = counting_sanitizer,
      sanitizeModKycDataDrivingLicense = counting_sanitizer,
      sanitizeVoterIdData = counting_sanitizer, sanitizeModKycDataVoterId = counting_sanitizer\<rparr>"



definition exact_match :: comparator where
  "exact_match a b \<longleftrightarrow> a = b"

section \<open>services/ocr.js: extractDataFromDocument\<close>

text \<open>
  What the recognition service answers is JSON, so a value is one of the JSON shapes, or
  \<open>undefined\<close> for a property that is not there. Numbers are kept as integers: the code
  only asks of a value whether it is truthy and whether it is the string \<open>ok\<close>. An
  object is the list of its own properties.
\<close>

datatype js_value =
    JUndefined
  | JNull
  | JBool bool
  | JNum int
  | JStr string
  | JArr "js_value list"
  | JObj "(string \<times> js_value) list"

fun truthy :: "js_value \<Rightarrow> bool" where
  "truthy JUndefined = False"
| "truthy JNull = False"
| "truthy (JBool b) = b"
| "truthy (JNum n) = (n \<noteq> 0)"
| "truthy (JStr s) = (s \<noteq> [])"
| "truthy (JArr xs) = True"
| "truthy (JObj kvs) = True"

text \<open>
  \<open>own_property v k\<close> is the own property \<open>k\<close> of \<open>v\<close>, for the names read below
  (\<open>data\<close>, \<open>status\<close>, \<open>message\<close>, \<open>ocr\<close>, \<open>validState\<close>, \<open>hasOwnProperty\<close>): only an
  object has one of those. \<open>get v k\<close> is the read \<open>v.k\<close>, which the source performs on
  truthy values only; a name that is not there reads as \<open>undefined\<close>.
\<close>

fun own_property :: "js_value \<Rightarrow> string \<Rightarrow> js_value option" where
  "own_property (JObj kvs) k = map_of kvs k"
| "own_property v k = None"

definition get :: "js_value \<Rightarrow> string \<Rightarrow> js_value" where
  "get v k = (case own_property v k of None \<Rightarrow> JUndefined | Some x \<Rightarrow> x)"

text \<open>\<open>delete v.k\<close>: the property goes, the others stay in place.\<close>

fun delete_property :: "string \<Rightarrow> js_value \<Rightarrow> js_value" where
  "delete_property k (JObj kvs) = JObj (filter (\<lambda>kv. fst kv \<noteq> k) kvs)"
| "delete_property k v = v"

text \<open>
  The request either rejects (no connection, a status outside 2xx) or resolves to a
  response. Inside the \<open>try\<close> block five things can be thrown; \<open>thrown\<close> names them:
  \<^item> \<open>Request_rejected\<close>: the rejection of \<open>axios.post\<close>;
  \<^item> \<open>Invalid_response\<close>: \<open>Error("Invalid OCR API response")\<close>;
  \<^item> \<open>Api_error m\<close>: \<open>Error(`OCR API error: ${m}`)\<close>, \<open>m\<close> being
    \<open>data.message || "Unknown error"\<close>;
  \<^item> \<open>Data_missing\<close>: \<open>Error("OCR data is missing in API response")\<close>;
  \<^item> \<open>Not_a_function\<close>: the TypeError of calling \<open>extractedData.hasOwnProperty\<close> when
    the extracted object has an own property of that name, which JSON data never makes a
    function.
\<close>

datatype post_outcome = Rejected | Resolved js_value

datatype thrown =
    Request_rejected
  | Invalid_response
  | Api_error js_value
  | Data_missing
  | Not_a_function

definition extraction_attempt :: "post_outcome \<Rightarrow> thrown + js_value" where
  "extraction_attempt outcome =
     (case outcome of
        Rejected \<Rightarrow> Inl Request_rejected
      | Resolved response \<Rightarrow>
          if \<not> truthy response \<or> \<not> truthy (get response ''data'') then Inl Invalid_response
          else
            let data = get response ''data'' in
            if get data ''status'' \<noteq> JStr ''ok''
            then Inl (Api_error (if truthy (get data ''message'') then get data ''message''
                                 else JStr ''Unknown error''))
            else if \<not> truthy (get data ''data'') \<or> \<not> truthy (get (get data ''data'') ''ocr'')
            then Inl Data_missing
            else
              let extractedData = get (get data ''data'') ''ocr'' in
              if own_property extractedData ''hasOwnProperty'' \<noteq> None then Inl Not_a_function
              else if own_property extractedData ''validState'' \<noteq> None
              then Inr (delete_property ''validState'' extractedData)
              else Inr extractedData)"

text \<open>
  The \<open>catch\<close> block writes what was thrown to the console and throws a fresh error with
  a fixed message, whatever it caught.
\<close>

definition extractDataFromDocument :: "post_outcome \<Rightarrow> js_error + js_value" where
  "extractDataFromDocument outcome =
     (case extraction_attempt outcome of
        Inl error \<Rightarrow> Inl (Error ''OCR extraction failed'')
      | Inr extractedData \<Rightarrow> Inr extractedData)"

section \<open>services/kyc.js\<close>

text \<open>
  The collections the service reads and writes. A Kyc document carries the submitted
  fields as the values they were stored with; its status is a string. \<open>userId\<close> is the
  reference that \<open>populate\<close> resolves in the User collection. The Moderation collection
  holds the verdicts that \<open>getKycWithModeration\<close> formats: OCR data and match, face match,
  liveliness.
\<close>

record user_doc =
  firstName :: "string option"
  lastName :: "string option"
  email :: "string option"

record kyc_doc =
  doc_id :: string
  userId :: string
  idType :: js_value
  nationality :: js_value
  dob :: js_value
  idNumber :: js_value
  idIssueDate :: js_value
  idExpiryDate :: js_value
  idIssuingCountry :: js_value
  countryOfResidence :: js_value
  addressLine1 :: js_value
  addressLine2 :: js_value
  city :: js_value
  state :: js_value
  zipCode :: js_value
  selfieImage :: js_value
  documentImage :: js_value
  kycStatus :: string
  createdAt :: js_value
  updatedAt :: js_value

record moderation_doc =
  moderation_id :: string
  moderation_kycId :: string
  moderation_ocrData :: js_value
  moderation_ocrMatch :: js_value
  moderation_faceMatch :: js_value
  moderation_liveliness :: js_value

record db =
  kycs :: "string \<rightharpoonup> kyc_doc"
  users :: "string \<rightharpoonup> user_doc"
  moderations :: "moderation_doc list"

subsection \<open>updateKycStatus\<close>

definition validStatuses :: "string list" where
  "validStatuses = [''Pending'', ''Verified'', ''Rejected'']"

text \<open>
  \<open>findByIdAndUpdate(kycId, { kycStatus }, { new: true })\<close> stores the status in the
  document with that id and resolves to the updated document, or to \<open>null\<close> (\<open>None\<close>)
  when there is none. The result is paired with the collections afterwards.
\<close>

definition updateKycStatus :: "db \<Rightarrow> string \<Rightarrow> string \<Rightarrow> (js_error + kyc_doc option) \<times> db" where
  "updateKycStatus d kycId kycStatus' =
     (if kycStatus' \<notin> set validStatuses
      then (Inl (Error ''Invalid KYC status provided''), d)
      else (case kycs d kycId of
              None \<Rightarrow> (Inr None, d)
            | Some kyc \<Rightarrow>
                (Inr (Some (kyc\<lparr>kycStatus := kycStatus'\<rparr>)),
                 d\<lparr>kycs := (kycs d)(kycId \<mapsto> kyc\<lparr>kycStatus := kycStatus'\<rparr>)\<rparr>)))"

subsection \<open>getKycById\<close>

text \<open>
  \<open>String.prototype.trim\<close> on the code points below U+0100: tab, line feed, vertical
  tab, form feed, carriage return, space and no-break space are stripped from both ends.
\<close>

definition is_space :: "char \<Rightarrow> bool" where
  "is_space c \<longleftrightarrow> (of_char c :: nat) \<in> {9, 10, 11, 12, 13, 32, 160}"

definition trim :: "string \<Rightarrow> string" where
  "trim s = rev (dropWhile is_space (rev (dropWhile is_space s)))"

text \<open>\<open>v || alt\<close> on an optional string: an absent or empty string gives \<open>alt\<close>.\<close>

definition or_else :: "string option \<Rightarrow> string \<Rightarrow> string" where
  "or_else v alt = (case v of None \<Rightarrow> alt | Some s \<Rightarrow> if s = [] then alt else s)"

text \<open>\<open>kyc.userId?.f\<close> on the populated reference, \<open>None\<close> when the user is not there.\<close>

definition user_field :: "user_doc option \<Rightarrow> (user_doc \<Rightarrow> string option) \<Rightarrow> string option" where
  "user_field u f = (case u of None \<Rightarrow> None | Some user \<Rightarrow> f user)"

text \<open>
  \<open>buildFileUrl\<close> (\<open>utils/buildUrl\<close>) is outside the sources verified here: it is a
  parameter that takes the request and a stored path and may throw. The \<open>catch\<close> block turns
  whatever the \<open>try\<close> block throws into one error.
\<close>

definition getKycById ::
  "('req \<Rightarrow> js_value \<Rightarrow> js_error + js_value) \<Rightarrow> db \<Rightarrow> string \<Rightarrow> 'req \<Rightarrow> js_error + js_value" where
  "getKycById buildFileUrl d kycId req =
     (case kycs d kycId of
        None \<Rightarrow> Inr JNull
      | Some kyc \<Rightarrow>
          let user = users d (userId kyc) in
          (case buildFileUrl req (selfieImage kyc) of
             Inl error \<Rightarrow> Inl (Error ''Could not fetch KYC data'')
           | Inr selfieUrl \<Rightarrow>
               (case buildFileUrl req (documentImage kyc) of
                  Inl error \<Rightarrow> Inl (Error ''Could not fetch KYC data'')
                | Inr documentUrl \<Rightarrow>
                    Inr (JObj
                      [(''id'', JStr (doc_id kyc)),
                       (''documentType'', idType kyc),
                       (''nationality'', nationality kyc),
                       (''dob'', dob kyc),
                       (''idNumber'', idNumber kyc),
                       (''idIssueDate'', idIssueDate kyc),
                       (''idExpiryDate'', idExpiryDate kyc),
                       (''idIssuingCountry'', idIssuingCountry kyc),
                       (''countryOfResidence'', countryOfResidence kyc),
                       (''addressLine1'', addressLine1 kyc),
                       (''addressLine2'',
                          if truthy (addressLine2 kyc) then addressLine2 kyc else JStr ''N/A''),
                       (''city'', city kyc),
                       (''state'', state kyc),
                       (''zipCode'', zipCode kyc),
                       (''name'',
                          JStr (trim (or_else (user_field user firstName) ''N/A'' @ '' ''
                                      @ or_else (user_field user lastName) []))),
                       (''email'', JStr (or_else (user_field user email) ''N/A'')),
                       (''selfieImage'', selfieUrl),
                       (''documentImage'', documentUrl),
                       (''kycStatus'', JStr (kycStatus kyc)),
                       (''createdAt'', createdAt kyc),
                       (''updatedAt'', updatedAt kyc)]))))"

text \<open>
  The names under which \<open>getKycWithModeration\<close> returns the moderation record and its
  verdicts.
\<close>

definition moderation_keys :: "string list" where
  "moderation_keys = [''moderation'', ''ocrData'', ''ocrMatch'', ''faceMatch'', ''liveliness'']"

subsection \<open>Sample collections\<close>

definition sample_kyc :: kyc_doc where
  "sample_kyc =
     \<lparr>doc_id = ''k1'', userId = ''u1'', idType = JStr ''passport'',
      nationality = JStr ''IN'', dob = JStr ''1990-01-01'', idNumber = JStr ''Z1'',
      idIssueDate = JStr ''2020-01-01'', idExpiryDate = JUndefined,
      idIssuingCountry = JStr ''IN'', countryOfResidence = JStr ''IN'',
      addressLine1 = JStr ''1 Main St'', addressLine2 = JStr [], city = JStr ''Pune'',
      state = JStr ''MH'', zipCode = JStr ''411001'', selfieImage = JStr ''s.png'',
      documentImage = JStr ''d.png'', kycStatus = ''Verified'',
      createdAt = JStr ''t0'', updatedAt = JStr ''t1''\<rparr>"

definition sample_moderation :: moderation_doc where
  "sample_moderation =
     \<lparr>moderation_id = ''m1'', moderation_kycId = ''k1'',
      moderation_ocrData = JObj [(''idNumber'', JStr ''Z9'')],
      moderation_ocrMatch = JBool False,
      moderation_faceMatch = JObj [(''match'', JBool True)],
      moderation_liveliness = JObj [(''passed'', JBool True)]\<rparr>"

definition sample_db :: db where
  "sample_db =
     \<lparr>kycs = [''k1'' \<mapsto> sample_kyc],
      users = [''u1'' \<mapsto> \<lparr>firstName = Some ''Ann'', lastName = None, email = Some ''a@x.org''\<rparr>],
      moderations = []\<rparr>"

definition plain_url :: "unit \<Rightarrow> js_value \<Rightarrow> js_error + js_value" where
  "plain_url req path = Inr path"

section \<open>Properties of compareDocumentByType\<close>

lemma compareDocumentByType_sanitized:
  assumes "select_sanitizers S (toLowerCase documentType) = Some (so, sk)"
    and "so ocrData s = (Inr socr, s1)"
    and "sk kycData s1 = (Inr skyc, s2)"
  shows "compareDocumentByType S cmp documentType ocrData kycData s
         = (Inr (compare_fields cmp socr skyc), s2)"
  using assms by (simp add: compareDocumentByType_def)

lemma isMatch_compare_fields:
  "isMatch (compare_fields cmp socr skyc)
   \<longleftrightarrow> (\<forall>f \<in> set (Object_keys socr). cmp (field_of socr f) (field_of skyc f))"
  by (simp add: compare_fields_def comparisonResults_def list_all_iff Let_def)

lemma own_entries_fold_record_mismatch:
  "map_of (own_entries (fold record_mismatch
      (map (\<lambda>f. \<lparr>c_field = f, c_isMatch = cmp (field_of socr f) (field_of skyc f),
                 c_ocrValue = field_of socr f, c_kycValue = field_of skyc f\<rparr>) ks) acc)) f =
   (if f \<in> set ks \<and> f \<noteq> ''__proto__'' \<and> \<not> cmp (field_of socr f) (field_of skyc f)
    then Some \<lparr>ocrValue = field_of socr f, kycValue = field_of skyc f,
              reason = ''Mismatch: OCR value ('' @ template (field_of socr f)
                       @ '') does not match KYC value ('' @ template (field_of skyc f) @ '')''\<rparr>
    else map_of (own_entries acc) f)"
  by (induction ks arbitrary: acc) (auto simp: record_mismatch_def Let_def update_conv')

lemma replaced_prototype_fold_record_mismatch:
  "replaced_prototype (fold record_mismatch
      (map (\<lambda>f. \<lparr>c_field = f, c_isMatch = cmp (field_of socr f) (field_of skyc f),
                 c_ocrValue = field_of socr f, c_kycValue = field_of skyc f\<rparr>) ks) acc) =
   (if ''__proto__'' \<in> set ks
       \<and> \<not> cmp (field_of socr ''__proto__'') (field_of skyc ''__proto__'')
    then Some \<lparr>ocrValue = field_of socr ''__proto__'', kycValue = field_of skyc ''__proto__'',
              reason = ''Mismatch: OCR value ('' @ template (field_of socr ''__proto__'')
                       @ '') does not match KYC value (''
                       @ template (field_of skyc ''__proto__'') @ '')''\<rparr>
    else replaced_prototype acc)"
  by (induction ks arbitrary: acc) (auto simp: record_mismatch_def Let_def)

lemma own_entries_compare_fields:
  "map_of (own_entries (mismatchResults (compare_fields cmp socr skyc))) f =
   (if f \<in> set (Object_keys socr) \<and> f \<noteq> ''__proto__''
       \<and> \<not> cmp (field_of socr f) (field_of skyc f)
    then Some \<lparr>ocrValue = field_of socr f, kycValue = field_of skyc f,
              reason = ''Mismatch: OCR value ('' @ template (field_of socr f)
                       @ '') does not match KYC value ('' @ template (field_of skyc f) @ '')''\<rparr>
    else None)"
  by (simp add: compare_fields_def comparisonResults_def Let_def
      own_entries_fold_record_mismatch)

lemma compare_fields_cong:
  assumes "\<forall>f \<in> set (Object_keys socr). field_of skyc' f = field_of skyc f"
  shows "compare_fields cmp socr skyc' = compare_fields cmp socr skyc"
proof -
  have "comparisonResults cmp socr skyc' = comparisonResults cmp socr skyc"
    unfolding comparisonResults_def using assms by (intro map_cong) auto
  then show ?thesis by (simp add: compare_fields_def)
qed

lemma field_of_absent:
  "map_of obj f = None \<Longrightarrow> f \<notin> set object_prototype_names \<Longrightarrow> field_of obj f = Undefined"
  by (simp add: field_of_def)

lemma select_None_iff: "select_sanitizers S t = None \<longleftrightarrow> t \<notin> set registered"
  by (simp add: select_sanitizers_def registered_def)


text \<open>
  Claim C3. For a supported document type, once both sanitizers have returned,
  \<open>compareDocumentByType\<close> returns a result whose \<open>isMatch\<close> is the conjunction of the
  comparator's verdicts over all compared fields, the keys of the sanitized OCR map: it is
  true exactly when every one of them matched, so one mismatching field makes it false.
\<close>

theorem compareDocumentByType_isMatch_conjunction:
  assumes "select_sanitizers S (toLowerCase documentType) = Some (sanitizeOcr, sanitizeKyc)"
    and "sanitizeOcr ocrData s = (Inr sanitizedOcrData, s1)"
    and "sanitizeKyc kycData s1 = (Inr sanitizedKycData, s2)"
  shows "\<exists>r. compareDocumentByType S compareStrings documentType ocrData kycData s = (Inr r, s2)
           \<and> (isMatch r \<longleftrightarrow>
                (\<forall>f \<in> set (Object_keys sanitizedOcrData).
                   compareStrings (field_of sanitizedOcrData f) (field_of sanitizedKycData f)))"
  using compareDocumentByType_sanitized [OF assms]
  by (simp add: isMatch_compare_fields)

theorem compareDocumentByType_isMatch_conjunction_witness:
  "select_sanitizers counting_sanitizers (toLowerCase ''passport'')
     = Some (counting_sanitizer, counting_sanitizer)
   \<and> counting_sanitizer [(''idNumber'', Some ''Z1''), (''name'', Some ''ann'')] 0
       = (Inr [(''idNumber'', Some ''Z1''), (''name'', Some ''ann'')], 1)
   \<and> counting_sanitizer [(''idNumber'', Some ''Z2''), (''name'', Some ''ann'')] 1
       = (Inr [(''idNumber'', Some ''Z2''), (''name'', Some ''ann'')], 2)
   \<and> (\<exists>r. compareDocumentByType counting_sanitizers exact_match ''passport''
             [(''idNumber'', Some ''Z1''), (''name'', Some ''ann'')]
             [(''idNumber'', Some ''Z2''), (''name'', Some ''ann'')] 0 = (Inr r, 2)
          \<and> \<not> isMatch r)"
  using compareDocumentByType_isMatch_conjunction
     [where S = counting_sanitizers and documentType = "''passport''"
      and sanitizeOcr = counting_sanitizer and sanitizeKyc = counting_sanitizer
      and ocrData = "[(''idNumber'', Some ''Z1''), (''name'', Some ''ann'')]"
      and kycData = "[(''idNumber'', Some ''Z2''), (''name'', Some ''ann'')]"
      and sanitizedOcrData = "[(''idNumber'', Some ''Z1''), (''name'', Some ''ann'')]"
      and sanitizedKycData = "[(''idNumber'', Some ''Z2''), (''name'', Some ''ann'')]"
      and s = 0 and ?s1.0 = 1 and ?s2.0 = 2 and compareStrings = exact_match]
  by (simp add: select_sanitizers_def counting_sanitizers_def toLowerCase_def lower_char_def
      counting_sanitizer_def Object_keys_def field_of_def exact_match_def)

text \<open>
  Claim C4, as amended. The fields compared are exactly the keys of the sanitized OCR map,
  each against what the sanitized submitted map gives under the same name: the result is a
  match exactly when the comparator accepts every one of these pairs. When the submitted
  map lacks the name, and \<open>Object.prototype\<close> has no member of that name, the OCR value is
  compared against \<open>undefined\<close>, and a comparator that rejects the pair makes the result a
  mismatch. A rejected field other than \<open>__proto__\<close> is entered with the two values
  compared. A field name absent from the sanitized OCR map is skipped: it has no entry in
  the mismatches, and the result is the same for any submitted data whose sanitized map
  reads alike under the keys of the OCR map.
\<close>

theorem compareDocumentByType_compares_ocr_keys:
  assumes "select_sanitizers S (toLowerCase documentType) = Some (sanitizeOcr, sanitizeKyc)"
    and "sanitizeOcr ocrData s = (Inr sanitizedOcrData, s1)"
    and "sanitizeKyc kycData s1 = (Inr sanitizedKycData, s2)"
  shows "\<exists>r. compareDocumentByType S compareStrings documentType ocrData kycData s = (Inr r, s2)
         \<and> (isMatch r \<longleftrightarrow>
              (\<forall>f \<in> set (Object_keys sanitizedOcrData).
                 compareStrings (field_of sanitizedOcrData f) (field_of sanitizedKycData f)))
         \<and> (\<forall>f \<in> set (Object_keys sanitizedOcrData).
               map_of sanitizedKycData f = None \<and> f \<notin> set object_prototype_names
               \<and> \<not> compareStrings (field_of sanitizedOcrData f) Undefined
               \<longrightarrow> \<not> isMatch r)
         \<and> (\<forall>f \<in> set (Object_keys sanitizedOcrData).
               f \<noteq> ''__proto__''
               \<and> \<not> compareStrings (field_of sanitizedOcrData f) (field_of sanitizedKycData f)
               \<longrightarrow> (\<exists>m. map_of (own_entries (mismatchResults r)) f = Some m
                      \<and> ocrValue m = field_of sanitizedOcrData f
                      \<and> kycValue m = field_of sanitizedKycData f))
         \<and> (\<forall>f. f \<notin> set (Object_keys sanitizedOcrData)
               \<longrightarrow> map_of (own_entries (mismatchResults r)) f = None)
         \<and> (\<forall>kycData' sanitizedKycData' s2'.
               sanitizeKyc kycData' s1 = (Inr sanitizedKycData', s2') \<and>
               (\<forall>f \<in> set (Object_keys sanitizedOcrData).
                  field_of sanitizedKycData' f = field_of sanitizedKycData f)
               \<longrightarrow> compareDocumentByType S compareStrings documentType ocrData kycData' s
                     = (Inr r, s2'))"
proof -
  let ?r = "compare_fields compareStrings sanitizedOcrData sanitizedKycData"
  have run: "compareDocumentByType S compareStrings documentType ocrData kycData s = (Inr ?r, s2)"
    by (rule compareDocumentByType_sanitized [OF assms])
  have verdict: "isMatch ?r \<longleftrightarrow>
              (\<forall>f \<in> set (Object_keys sanitizedOcrData).
                 compareStrings (field_of sanitizedOcrData f) (field_of sanitizedKycData f))"
    by (rule isMatch_compare_fields)
  have lacking: "\<forall>f \<in> set (Object_keys sanitizedOcrData).
               map_of sanitizedKycData f = None \<and> f \<notin> set object_prototype_names
               \<and> \<not> compareStrings (field_of sanitizedOcrData f) Undefined
               \<longrightarrow> \<not> isMatch ?r"
  proof (intro ballI impI)
    fix f
    assume f: "f \<in> set (Object_keys sanitizedOcrData)"
      and h: "map_of sanitizedKycData f = None \<and> f \<notin> set object_prototype_names
               \<and> \<not> compareStrings (field_of sanitizedOcrData f) Undefined"
    from h have "field_of sanitizedKycData f = Undefined" by (simp add: field_of_absent)
    with h have "\<not> compareStrings (field_of sanitizedOcrData f) (field_of sanitizedKycData f)"
      by simp
    with f show "\<not> isMatch ?r" unfolding verdict by blast
  qed
  have entered: "\<forall>f \<in> set (Object_keys sanitizedOcrData).
               f \<noteq> ''__proto__''
               \<and> \<not> compareStrings (field_of sanitizedOcrData f) (field_of sanitizedKycData f)
               \<longrightarrow> (\<exists>m. map_of (own_entries (mismatchResults ?r)) f = Some m
                      \<and> ocrValue m = field_of sanitizedOcrData f
                      \<and> kycValue m = field_of sanitizedKycData f)"
    by (simp add: own_entries_compare_fields)
  have skipped: "\<forall>f. f \<notin> set (Object_keys sanitizedOcrData)
                   \<longrightarrow> map_of (own_entries (mismatchResults ?r)) f = None"
    by (simp add: own_entries_compare_fields)
  have indep: "\<forall>kycData' sanitizedKycData' s2'.
               sanitizeKyc kycData' s1 = (Inr sanitizedKycData', s2') \<and>
               (\<forall>f \<in> set (Object_keys sanitizedOcrData).
                  field_of sanitizedKycData' f = field_of sanitizedKycData f)
               \<longrightarrow> compareDocumentByType S compareStrings documentType ocrData kycData' s
                     = (Inr ?r, s2')"
  proof (intro allI impI, elim conjE)
    fix kycData' sanitizedKycData' s2'
    assume k: "sanitizeKyc kycData' s1 = (Inr sanitizedKycData', s2')"
      and agree: "\<forall>f \<in> set (Object_keys sanitizedOcrData).
                     field_of sanitizedKycData' f = field_of sanitizedKycData f"
    show "compareDocumentByType S compareStrings documentType ocrData kycData' s = (Inr ?r, s2')"
      using compareDocumentByType_sanitized [OF assms(1,2) k, of compareStrings]
        compare_fields_cong [OF agree, of compareStrings]
      by simp
  qed
  show ?thesis
    by (rule exI [of _ ?r]) (intro conjI run verdict lacking entered skipped indep)
qed

theorem compareDocumentByType_compares_ocr_keys_witness:
  "select_sanitizers counting_sanitizers (toLowerCase ''dl'')
     = Some (counting_sanitizer, counting_sanitizer)
   \<and> counting_sanitizer [(''idNumber'', Some ''Z1''), (''name'', Some ''ann'')] 0
       = (Inr [(''idNumber'', Some ''Z1''), (''name'', Some ''ann'')], 1)
   \<and> counting_sanitizer [(''idNumber'', Some ''Z1''), (''city'', Some ''Pune'')] 1
       = (Inr [(''idNumber'', Some ''Z1''), (''city'', Some ''Pune'')], 2)
   \<and> compareDocumentByType counting_sanitizers exact_match ''dl''
         [(''idNumber'', Some ''Z1''), (''name'', Some ''ann'')]
         [(''idNumber'', Some ''Z1''), (''city'', Some ''Pune'')] 0
       = (Inr \<lparr>isMatch = False,
               mismatchResults =
                 \<lparr>own_entries =
                    [(''name'', \<lparr>ocrValue = Text ''ann'', kycValue = Undefined,
                       reason = ''Mismatch: OCR value (ann) does not match KYC value (undefined)''\<rparr>)],
                  replaced_prototype = None\<rparr>\<rparr>, 2)"
  using compareDocumentByType_compares_ocr_keys
     [where S = counting_sanitizers and documentType = "''dl''"
      and sanitizeOcr = counting_sanitizer and sanitizeKyc = counting_sanitizer
      and ocrData = "[(''idNumber'', Some ''Z1''), (''name'', Some ''ann'')]"
      and kycData = "[(''idNumber'', Some ''Z1''), (''city'', Some ''Pune'')]"
      and sanitizedOcrData = "[(''idNumber'', Some ''Z1''), (''name'', Some ''ann'')]"
      and sanitizedKycData = "[(''idNumber'', Some ''Z1''), (''city'', Some ''Pune'')]"
      and s = 0 and ?s1.0 = 1 and ?s2.0 = 2 and compareStrings = exact_match]
  by (simp add: compareDocumentByType_def compare_fields_def comparisonResults_def
      record_mismatch_def template_def
      select_sanitizers_def counting_sanitizers_def toLowerCase_def lower_char_def
      counting_sanitizer_def Object_keys_def field_of_def exact_match_def
      object_prototype_names_def)

text \<open>
  The claim as first stated fails: with nothing extracted and an identity number
  submitted, the field is in no comparison, the result is a match without mismatches,
  although the comparator rejects the empty string against the submitted number.
\<close>

theorem compareDocumentByType_absent_field_counterexample:
  "compareDocumentByType counting_sanitizers exact_match ''passport''
       [] [(''idNumber'', Some ''Z2'')] 0
     = (Inr \<lparr>isMatch = True,
             mismatchResults = \<lparr>own_entries = [], replaced_prototype = None\<rparr>\<rparr>, 2)
   \<and> ''idNumber'' \<notin> set (Object_keys [])
   \<and> ''idNumber''
       \<notin> set (map c_field (comparisonResults exact_match [] [(''idNumber'', Some ''Z2'')]))
   \<and> \<not> exact_match (Text []) (field_of [(''idNumber'', Some ''Z2'')] ''idNumber'')"
  by (simp add: compareDocumentByType_def select_sanitizers_def counting_sanitizers_def
      toLowerCase_def lower_char_def counting_sanitizer_def compare_fields_def
      comparisonResults_def Object_keys_def field_of_def exact_match_def)


text \<open>
  Claim C6, as amended. For every document-type string whose lower-cased form is none of
  the five case labels, \<open>compareDocumentByType\<close> throws the unsupported-type error naming
  the string as given, and no sanitizer runs: the state that a sanitizer could touch comes
  back as it went in, whatever the sanitizers are.
\<close>

theorem compareDocumentByType_unsupported:
  assumes "toLowerCase documentType \<notin> set registered"
  shows "compareDocumentByType S compareStrings documentType ocrData kycData s
         = (Inl (Error (''Unsupported document type: '' @ documentType)), s)"
proof -
  have "select_sanitizers S (toLowerCase documentType) = None"
    using assms by (simp only: select_None_iff not_False_eq_True)
  then show ?thesis by (simp add: compareDocumentByType_def)
qed

theorem compareDocumentByType_unsupported_witness:
  "toLowerCase ''Visa'' \<notin> set registered \<and>
   compareDocumentByType counting_sanitizers exact_match ''Visa''
       [(''idNumber'', Some ''Z1'')] [(''idNumber'', Some ''Z1'')] 0
     = (Inl (Error ''Unsupported document type: Visa''), 0)"
  using compareDocumentByType_unsupported [of "''Visa''" counting_sanitizers exact_match
      "[(''idNumber'', Some ''Z1'')]" "[(''idNumber'', Some ''Z1'')]" 0]
  by (simp add: registered_def toLowerCase_def lower_char_def)

text \<open>
  The claim as first stated fails: \<open>Passport\<close> is none of the five registered strings,
  yet the call succeeds and both sanitizers run.
\<close>

theorem compareDocumentByType_capitalised_counterexample:
  "''Passport'' \<notin> set registered \<and>
   compareDocumentByType counting_sanitizers exact_match ''Passport''
       [(''idNumber'', Some ''Z1'')] [(''idNumber'', Some ''Z1'')] 0
     = (Inr \<lparr>isMatch = True,
             mismatchResults = \<lparr>own_entries = [], replaced_prototype = None\<rparr>\<rparr>, 2)"
  by (simp add: registered_def compareDocumentByType_def select_sanitizers_def
      counting_sanitizers_def toLowerCase_def lower_char_def counting_sanitizer_def
      compare_fields_def comparisonResults_def Object_keys_def field_of_def exact_match_def
      record_mismatch_def)



section \<open>Properties of extractDataFromDocument\<close>

lemma map_of_filter_other:
  "k' \<noteq> k \<Longrightarrow> map_of (filter (\<lambda>kv. fst kv \<noteq> k) kvs) k' = map_of kvs k'"
  by (induction kvs) auto

lemma map_of_filter_same: "map_of (filter (\<lambda>kv. fst kv \<noteq> k) kvs) k = None"
  by (induction kvs) auto

lemma filter_absent_key:
  "map_of kvs k = None \<Longrightarrow> filter (\<lambda>kv. fst kv \<noteq> k) kvs = kvs"
  by (induction kvs) (auto split: if_splits)

lemma delete_absent_property: "own_property v k = None \<Longrightarrow> delete_property k v = v"
  by (cases v) (simp_all add: filter_absent_key)

lemma own_property_delete_same: "own_property (delete_property k v) k = None"
  by (cases v) (simp_all add: map_of_filter_same)

lemma own_property_delete_other:
  "k' \<noteq> k \<Longrightarrow> own_property (delete_property k v) k' = own_property v k'"
  by (cases v) (simp_all add: map_of_filter_other)

lemma extraction_attempt_Inr:
  assumes "extraction_attempt outcome = Inr extractedData"
  shows "\<exists>response. outcome = Resolved response \<and>
           extractedData = delete_property ''validState''
                             (get (get (get response ''data'') ''data'') ''ocr'')"
proof (cases outcome)
  case Rejected
  with assms show ?thesis by (simp add: extraction_attempt_def)
next
  case (Resolved response)
  let ?ocr = "get (get (get response ''data'') ''data'') ''ocr''"
  have "extractedData = delete_property ''validState'' ?ocr"
  proof (cases "own_property ?ocr ''validState''")
    case None
    then have "delete_property ''validState'' ?ocr = ?ocr"
      by (rule delete_absent_property)
    with assms Resolved None show ?thesis
      by (simp add: extraction_attempt_def Let_def split: if_splits)
  next
    case (Some x)
    with assms Resolved show ?thesis
      by (simp add: extraction_attempt_def Let_def split: if_splits)
  qed
  with Resolved show ?thesis by simp
qed

text \<open>
  Claim C2, as amended. Every failing extraction call surfaces one and the same error,
  \<open>Error("OCR extraction failed")\<close>: whatever was thrown inside the \<open>try\<close> block
  (a rejected request, an absent response body, a status other than ok, an absent data or
  OCR section), the caller receives that error and no other.
\<close>

theorem extractDataFromDocument_failure_is_generic:
  "(extraction_attempt outcome = Inl cause
      \<longrightarrow> extractDataFromDocument outcome = Inl (Error ''OCR extraction failed''))
   \<and> (extractDataFromDocument outcome = Inl e \<longrightarrow> e = Error ''OCR extraction failed'')"
  by (auto simp: extractDataFromDocument_def split: sum.splits)

theorem extractDataFromDocument_failure_is_generic_witness:
  "extraction_attempt Rejected = Inl Request_rejected
   \<and> extractDataFromDocument Rejected = Inl (Error ''OCR extraction failed'')"
  using extractDataFromDocument_failure_is_generic
     [of Rejected Request_rejected "Error ''OCR extraction failed''"]
  by (simp add: extraction_attempt_def)

text \<open>
  The claim as first stated fails: an absent response body, a status other than ok and an
  absent OCR section are three different throws inside the \<open>try\<close> block, and the caller
  gets the same error for all three.
\<close>

theorem extractDataFromDocument_causes_collapse_counterexample:
  "extraction_attempt (Resolved (JObj [])) = Inl Invalid_response
   \<and> extraction_attempt (Resolved (JObj [(''data'', JObj [(''status'', JStr ''error'')])]))
       = Inl (Api_error (JStr ''Unknown error''))
   \<and> extraction_attempt (Resolved (JObj [(''data'', JObj [(''status'', JStr ''ok'')])]))
       = Inl Data_missing
   \<and> extractDataFromDocument (Resolved (JObj [])) = Inl (Error ''OCR extraction failed'')
   \<and> extractDataFromDocument (Resolved (JObj [(''data'', JObj [(''status'', JStr ''error'')])]))
       = Inl (Error ''OCR extraction failed'')
   \<and> extractDataFromDocument (Resolved (JObj [(''data'', JObj [(''status'', JStr ''ok'')])]))
       = Inl (Error ''OCR extraction failed'')"
  by (simp add: extractDataFromDocument_def extraction_attempt_def get_def)

text \<open>
  Claim C8. Whenever the extraction succeeds, the value returned has no own property
  \<open>validState\<close>, and every other property of it is the property of that name in the OCR
  section of the response, unchanged.
\<close>

theorem extractDataFromDocument_strips_validState:
  assumes "extractDataFromDocument outcome = Inr extractedData"
  shows "own_property extractedData ''validState'' = None \<and>
         (\<exists>response. outcome = Resolved response \<and>
            (\<forall>k. k \<noteq> ''validState'' \<longrightarrow>
               own_property extractedData k
                 = own_property (get (get (get response ''data'') ''data'') ''ocr'') k))"
proof -
  from assms have "extraction_attempt outcome = Inr extractedData"
    by (simp add: extractDataFromDocument_def split: sum.splits)
  then obtain response where r: "outcome = Resolved response"
    and e: "extractedData = delete_property ''validState''
                             (get (get (get response ''data'') ''data'') ''ocr'')"
    using extraction_attempt_Inr by blast
  show ?thesis
    unfolding e using r by (simp add: own_property_delete_same own_property_delete_other)
qed

theorem extractDataFromDocument_strips_validState_witness:
  "extractDataFromDocument
     (Resolved (JObj [(''data'', JObj [(''status'', JStr ''ok''),
        (''data'', JObj [(''ocr'', JObj [(''name'', JStr ''ANN''), (''validState'', JStr ''OK''),
                                        (''dob'', JStr ''1990'')])])])]))
     = Inr (JObj [(''name'', JStr ''ANN''), (''dob'', JStr ''1990'')])
   \<and> own_property (JObj [(''name'', JStr ''ANN''), (''dob'', JStr ''1990'')]) ''validState'' = None"
  using extractDataFromDocument_strips_validState
     [of "Resolved (JObj [(''data'', JObj [(''status'', JStr ''ok''),
        (''data'', JObj [(''ocr'', JObj [(''name'', JStr ''ANN''), (''validState'', JStr ''OK''),
                                        (''dob'', JStr ''1990'')])])])])"
      "JObj [(''name'', JStr ''ANN''), (''dob'', JStr ''1990'')]"]
  by (simp add: extractDataFromDocument_def extraction_attempt_def get_def)

section \<open>Properties of the KYC service\<close>

text \<open>
  Claim C1, as amended. \<open>updateKycStatus\<close> succeeds only when the target status is one of
  Pending, Verified and Rejected; for any other target string it throws
  \<open>Error("Invalid KYC status provided")\<close> and leaves the collections, and with them the
  status of the submission, as they were.
\<close>

theorem updateKycStatus_valid_targets:
  "(kycStatus' \<notin> {''Pending'', ''Verified'', ''Rejected''}
      \<longrightarrow> updateKycStatus d kycId kycStatus' = (Inl (Error ''Invalid KYC status provided''), d))
   \<and> (\<forall>r d'. updateKycStatus d kycId kycStatus' = (Inr r, d')
         \<longrightarrow> kycStatus' \<in> {''Pending'', ''Verified'', ''Rejected''})"
  by (simp add: updateKycStatus_def validStatuses_def split: option.splits)

theorem updateKycStatus_valid_targets_witness:
  "''Approved'' \<notin> {''Pending'', ''Verified'', ''Rejected''}
   \<and> updateKycStatus sample_db ''k1'' ''Approved''
       = (Inl (Error ''Invalid KYC status provided''), sample_db)
   \<and> updateKycStatus sample_db ''k1'' ''Rejected''
       = (Inr (Some (sample_kyc\<lparr>kycStatus := ''Rejected''\<rparr>)),
          sample_db\<lparr>kycs := [''k1'' \<mapsto> sample_kyc\<lparr>kycStatus := ''Rejected''\<rparr>]\<rparr>)
   \<and> ''Rejected'' \<in> {''Pending'', ''Verified'', ''Rejected''}"
  using updateKycStatus_valid_targets [of "''Approved''" sample_db "''k1''"]
    updateKycStatus_valid_targets [of "''Rejected''" sample_db "''k1''"]
  by (simp add: updateKycStatus_def validStatuses_def sample_db_def)

text \<open>
  The claim as first stated fails: Pending is outside Verified and Rejected, yet the update
  of a Verified submission to Pending succeeds and the stored status changes.
\<close>

theorem updateKycStatus_pending_counterexample:
  "''Pending'' \<notin> {''Verified'', ''Rejected''}
   \<and> kycStatus sample_kyc = ''Verified''
   \<and> kycs sample_db ''k1'' = Some sample_kyc
   \<and> fst (updateKycStatus sample_db ''k1'' ''Pending'')
       = Inr (Some (sample_kyc\<lparr>kycStatus := ''Pending''\<rparr>))
   \<and> kycs (snd (updateKycStatus sample_db ''k1'' ''Pending'')) ''k1''
       = Some (sample_kyc\<lparr>kycStatus := ''Pending''\<rparr>)"
  by (simp add: updateKycStatus_def validStatuses_def sample_db_def sample_kyc_def)

text \<open>
  Claim C9. What \<open>getKycById\<close> returns does not depend on the Moderation collection: it
  is the same whether or not a moderation record exists and whatever the record holds.
  When it returns an object, none of the names under which moderation data is reported
  (the moderation record, OCR data, OCR match, face match, liveliness) is a key of it,
  and of the verification outcome it carries the status of the submission under
  \<open>kycStatus\<close>.
\<close>

theorem getKycById_hides_moderation:
  "getKycById buildFileUrl (d\<lparr>moderations := ms\<rparr>) kycId req
     = getKycById buildFileUrl d kycId req
   \<and> (\<forall>kvs. getKycById buildFileUrl d kycId req = Inr (JObj kvs)
         \<longrightarrow> set (map fst kvs) \<inter> set moderation_keys = {}
             \<and> (\<exists>kyc. kycs d kycId = Some kyc
                  \<and> map_of kvs ''kycStatus'' = Some (JStr (kycStatus kyc))))"
proof -
  have indep: "getKycById buildFileUrl (d\<lparr>moderations := ms\<rparr>) kycId req
     = getKycById buildFileUrl d kycId req"
    by (simp add: getKycById_def Let_def split: option.splits)
  have keys: "set (map fst kvs) \<inter> set moderation_keys = {}
             \<and> (\<exists>kyc. kycs d kycId = Some kyc
                  \<and> map_of kvs ''kycStatus'' = Some (JStr (kycStatus kyc)))"
    if "getKycById buildFileUrl d kycId req = Inr (JObj kvs)" for kvs
  proof (cases "kycs d kycId")
    case None
    with that show ?thesis by (simp add: getKycById_def)
  next
    case (Some kyc)
    with that have kvs: "map fst kvs =
       [''id'', ''documentType'', ''nationality'', ''dob'', ''idNumber'', ''idIssueDate'',
        ''idExpiryDate'', ''idIssuingCountry'', ''countryOfResidence'', ''addressLine1'',
        ''addressLine2'', ''city'', ''state'', ''zipCode'', ''name'', ''email'',
        ''selfieImage'', ''documentImage'', ''kycStatus'', ''createdAt'', ''updatedAt'']"
      and st: "map_of kvs ''kycStatus'' = Some (JStr (kycStatus kyc))"
      by (auto simp: getKycById_def Let_def split: sum.splits)
    have "set (map fst kvs) \<inter> set moderation_keys = {}"
      unfolding kvs moderation_keys_def by simp
    with Some st show ?thesis by simp
  qed
  from indep keys show ?thesis by blast
qed

theorem getKycById_hides_moderation_witness:
  "getKycById plain_url (sample_db\<lparr>moderations := [sample_moderation]\<rparr>) ''k1'' ()
     = getKycById plain_url sample_db ''k1'' ()
   \<and> (\<exists>kvs. getKycById plain_url sample_db ''k1'' () = Inr (JObj kvs)
         \<and> set (map fst kvs) \<inter> set moderation_keys = {}
         \<and> map_of kvs ''kycStatus'' = Some (JStr ''Verified''))"
proof -
  note c = getKycById_hides_moderation
     [where buildFileUrl = plain_url and d = sample_db and ms = "[sample_moderation]"
      and kycId = "''k1''" and req = "()"]
  obtain kvs where k: "getKycById plain_url sample_db ''k1'' () = Inr (JObj kvs)"
    by (simp add: getKycById_def sample_db_def plain_url_def Let_def)
  from c k have disj: "set (map fst kvs) \<inter> set moderation_keys = {}"
    and "\<exists>kyc. kycs sample_db ''k1'' = Some kyc
            \<and> map_of kvs ''kycStatus'' = Some (JStr (kycStatus kyc))"
    by blast+
  then have "map_of kvs ''kycStatus'' = Some (JStr ''Verified'')"
    by (auto simp: sample_db_def sample_kyc_def)
  with c k disj show ?thesis by blast
qed

end
